theory Spec2Isabelle
  imports Complex_Main "HOL-Library.Multiset"
begin

section \<open>Signal evaluation (src/analysis/signals.py)\<close>

text \<open>
  Python floats are modelled as \<^typ>\<open>real\<close>: comparisons of floats that are not NaN
  are the comparisons of the numbers they denote, and the arithmetic of the strength
  score is taken without rounding. An absent value (Python \<open>None\<close>) is
  \<^term>\<open>None\<close>; a NaN cell of a data frame is the constructor \<open>NaN\<close> below.
\<close>

datatype SignalType = BUY | SELL | NEUTRAL

fun SignalType_value :: "SignalType \<Rightarrow> string" where
  "SignalType_value BUY = ''BUY''"
| "SignalType_value SELL = ''SELL''"
| "SignalType_value NEUTRAL = ''NEUTRAL''"

record Signal =
  type :: SignalType
  strength :: real
  rsi :: "real option"
  stoch :: "real option"
  macd :: "real option"
  macd_signal :: "real option"
  reason :: string

text \<open>Exceptions are values; \<open>str_error\<close> is Python's \<open>str(e)\<close>.\<close>

datatype error =
    ValueError string
  | IndexError string
  | OverflowError string
  | Exception string

fun str_error :: "error \<Rightarrow> string" where
  "str_error (ValueError m) = m"
| "str_error (IndexError m) = m"
| "str_error (OverflowError m) = m"
| "str_error (Exception m) = m"

text \<open>
  A data frame: its column labels and its rows in ascending time order. A cell is a float
  or NaN; \<open>row c = None\<close> when the row has no column \<open>c\<close> (\<open>latest.get(c)\<close> is then
  Python's \<open>None\<close>).
\<close>

datatype cell = NaN | Val real

record frame =
  columns :: "string list"
  rows :: "(string \<rightharpoonup> cell) list"

definition empty :: "frame \<Rightarrow> bool" where
  "empty df = (columns df = [] \<or> rows df = [])"

text \<open>\<open>df.iloc[-1]\<close>: the last row, IndexError when there is none.\<close>

definition iloc_last :: "frame \<Rightarrow> error + (string \<rightharpoonup> cell)" where
  "iloc_last df =
     (if rows df = [] then Inl (IndexError ''single positional indexer is out-of-bounds'')
      else Inr (last (rows df)))"

text \<open>\<open>pd.isna\<close> on what \<open>latest.get\<close> returned: true for None and for NaN.\<close>

fun isna :: "cell option \<Rightarrow> bool" where
  "isna None = True"
| "isna (Some NaN) = True"
| "isna (Some (Val x)) = False"

text \<open>\<open>float(v) if not pd.isna(v) else None\<close>\<close>

fun float_or_None :: "cell option \<Rightarrow> real option" where
  "float_or_None (Some (Val x)) = Some x"
| "float_or_None v = None"

text \<open>
  The generator object. \<open>rsi_threshold\<close> and \<open>stoch_threshold\<close> are read from the
  configuration by the constructor. \<open>add_all_indicators\<close> is the indicator engine
  (pandas-ta arithmetic, outside this development): a parameter that returns the frame
  with the indicator columns added, or raises. \<open>fmt_1f\<close> and \<open>fmt_str\<close> stand for
  Python's float formatting \<open>{x:.1f}\<close> and \<open>{x}\<close> used in the reason strings.
\<close>

record SignalGenerator =
  rsi_threshold :: real
  stoch_threshold :: real
  add_all_indicators :: "frame \<Rightarrow> error + frame"
  fmt_1f :: "real \<Rightarrow> string"
  fmt_str :: "real \<Rightarrow> string"

definition evaluate_conditions ::
  "SignalGenerator \<Rightarrow> real \<Rightarrow> real \<Rightarrow> real \<Rightarrow> real \<Rightarrow> SignalType \<times> string list" where
  "evaluate_conditions g r s m ms =
     (let rsi_bullish = r > rsi_threshold g;
          stoch_bullish = s > stoch_threshold g;
          macd_bullish = m > ms;
          rsi_bearish = r < rsi_threshold g;
          stoch_bearish = s < stoch_threshold g;
          macd_bearish = m < ms
      in if rsi_bullish \<and> stoch_bullish \<and> macd_bullish then
           (BUY, [''RSI('' @ fmt_1f g r @ '') > '' @ fmt_str g (rsi_threshold g),
                  ''Stoch('' @ fmt_1f g s @ '') > '' @ fmt_str g (stoch_threshold g),
                  ''MACD > Signal''])
         else if rsi_bearish \<and> stoch_bearish \<and> macd_bearish then
           (SELL, [''RSI('' @ fmt_1f g r @ '') < '' @ fmt_str g (rsi_threshold g),
                   ''Stoch('' @ fmt_1f g s @ '') < '' @ fmt_str g (stoch_threshold g),
                   ''MACD < Signal''])
         else
           (NEUTRAL,
            [if rsi_bullish then ''RSI bullish''
             else if rsi_bearish then ''RSI bearish'' else ''RSI neutral'',
             if stoch_bullish then ''Stoch bullish''
             else if stoch_bearish then ''Stoch bearish'' else ''Stoch neutral'',
             if macd_bullish then ''MACD bullish'' else ''MACD bearish'']))"

text \<open>
  The three component scores are the local variables \<open>rsi_strength\<close>,
  \<open>stoch_strength\<close> and \<open>macd_strength\<close> of \<open>calculate_strength\<close>. The method reads
  no attribute of the generator: the midpoint 50 is a literal.
\<close>

definition rsi_strength :: "real \<Rightarrow> real" where
  "rsi_strength r = min (abs (r - 50)) 50 * 2"

definition stoch_strength :: "real \<Rightarrow> real" where
  "stoch_strength s = min (abs (s - 50)) 50 * 2"

definition macd_strength :: "real \<Rightarrow> real \<Rightarrow> real" where
  "macd_strength m ms = (let macd_hist = abs (m - ms) in min (macd_hist * 50) 100)"

definition calculate_strength :: "SignalType \<Rightarrow> real \<Rightarrow> real \<Rightarrow> real \<Rightarrow> real \<Rightarrow> real" where
  "calculate_strength signal_type r s m ms =
     (if signal_type = NEUTRAL then 0
      else let strength = (rsi_strength r + stoch_strength s + macd_strength m ms) / 3
           in min strength 100)"

text \<open>\<open>" | ".join(reasons)\<close>\<close>

fun join :: "string \<Rightarrow> string list \<Rightarrow> string" where
  "join sep [] = []"
| "join sep [x] = x"
| "join sep (x # y # ys) = x @ sep @ join sep (y # ys)"

text \<open>
  \<open>generate_signal\<close>. The test \<open>pd.isna(rsi) or pd.isna(stoch) or ...\<close> fails exactly
  when all four of \<open>float_or_None\<close> are present, which is the first pattern of the
  \<open>case\<close>; every other pattern is the branch of the test.
\<close>

definition generate_signal :: "SignalGenerator \<Rightarrow> frame \<Rightarrow> bool \<Rightarrow> error + Signal" where
  "generate_signal g df add_indicators =
     (if empty df then
        Inr \<lparr>type = NEUTRAL, strength = 0, rsi = None, stoch = None, macd = None,
             macd_signal = None, reason = ''No data''\<rparr>
      else
        case (if add_indicators \<or> ''rsi'' \<notin> set (columns df)
              then add_all_indicators g df else Inr df) of
          Inl e \<Rightarrow> Inl e
        | Inr df' \<Rightarrow>
           (case iloc_last df' of
              Inl e \<Rightarrow> Inl e
            | Inr latest \<Rightarrow>
               (let r = latest ''rsi'';
                    s = latest ''stoch_d'';
                    m = latest ''macd'';
                    ms = latest ''macd_signal''
                in case (float_or_None r, float_or_None s, float_or_None m, float_or_None ms) of
                     (Some rv, Some sv, Some mv, Some msv) \<Rightarrow>
                       (let (signal_type, reasons) = evaluate_conditions g rv sv mv msv;
                            st = calculate_strength signal_type rv sv mv msv
                        in Inr \<lparr>type = signal_type, strength = st,
                                rsi = Some rv, stoch = Some sv,
                                macd = Some mv, macd_signal = Some msv,
                                reason = join '' | '' reasons\<rparr>)
                   | _ \<Rightarrow>
                       Inr \<lparr>type = NEUTRAL, strength = 0,
                            rsi = float_or_None r, stoch = float_or_None s,
                            macd = float_or_None m, macd_signal = float_or_None ms,
                            reason = ''Insufficient data for indicators''\<rparr>)))"

text \<open>
  Python's \<open>round(x, n)\<close> on a float: to \<open>n\<close> decimals, a tie going to the even
  neighbour.
\<close>

definition py_round :: "real \<Rightarrow> nat \<Rightarrow> real" where
  "py_round x n =
     (let y = x * 10 ^ n; f = \<lfloor>y\<rfloor>; d = y - of_int f
      in (if d < 1 / 2 then of_int f
          else if d > 1 / 2 then of_int (f + 1)
          else if even f then of_int f else of_int (f + 1)) / 10 ^ n)"

text \<open>The values of the dictionaries handed to the printing layer.\<close>

datatype pyval = PNone | PStr string | PNum real

text \<open>
  \<open>round(v, n) if v else None\<close>: the condition is Python truthiness, false for \<open>None\<close>
  and for the float zero, true for every other float.
\<close>

definition round_if :: "real option \<Rightarrow> nat \<Rightarrow> pyval" where
  "round_if v n =
     (case v of None \<Rightarrow> PNone | Some x \<Rightarrow> if x \<noteq> 0 then PNum (py_round x n) else PNone)"

definition to_dict :: "Signal \<Rightarrow> (string \<rightharpoonup> pyval)" where
  "to_dict sg =
     Map.empty(
      ''signal'' \<mapsto> PStr (SignalType_value (type sg)),
      ''strength'' \<mapsto> PNum (py_round (strength sg) 1),
      ''rsi'' \<mapsto> round_if (rsi sg) 2,
      ''stoch'' \<mapsto> round_if (stoch sg) 2,
      ''macd'' \<mapsto> round_if (macd sg) 6,
      ''macd_signal'' \<mapsto> round_if (macd_signal sg) 6,
      ''reason'' \<mapsto> PStr (reason sg))"

text \<open>
  A scan result is the dictionary built by the scanner. \<open>symbol = None\<close> and
  \<open>error = None\<close> say that the key is missing (\<open>result.get\<close> then returns its default);
  \<open>error = Some None\<close> is the key bound to Python's \<open>None\<close>. For \<open>data\<close> a missing key
  and \<open>None\<close> read the same through \<open>result.get("data")\<close>.
\<close>

record ScanResult =
  symbol :: "string option"
  data :: "frame option"
  error :: "string option option"

text \<open>\<open>result.get("error")\<close> as a condition: a non-empty string.\<close>

definition error_truthy :: "ScanResult \<Rightarrow> bool" where
  "error_truthy res = (case error res of Some (Some msg) \<Rightarrow> msg \<noteq> [] | _ \<Rightarrow> False)"

text \<open>\<open>result.get("error", "No data")\<close>\<close>

definition error_or_default :: "ScanResult \<Rightarrow> pyval" where
  "error_or_default res =
     (case error res of None \<Rightarrow> PStr ''No data'' | Some None \<Rightarrow> PNone | Some (Some msg) \<Rightarrow> PStr msg)"

text \<open>\<open>result.get("symbol", "")\<close>\<close>

definition symbol_or_default :: "ScanResult \<Rightarrow> pyval" where
  "symbol_or_default res = PStr (case symbol res of None \<Rightarrow> [] | Some name \<Rightarrow> name)"

text \<open>One iteration of the loop of \<open>generate_signals_batch\<close>: the record appended.\<close>

definition batch_record :: "SignalGenerator \<Rightarrow> ScanResult \<Rightarrow> (string \<rightharpoonup> pyval)" where
  "batch_record g res =
     (let sy = symbol_or_default res;
          error_record =
            Map.empty(''symbol'' \<mapsto> sy, ''signal'' \<mapsto> PStr ''ERROR'', ''error'' \<mapsto> error_or_default res)
      in case data res of
           None \<Rightarrow> error_record
         | Some df \<Rightarrow>
            if error_truthy res then error_record
            else (case generate_signal g df True of
                    Inr sg \<Rightarrow> Map.empty(''symbol'' \<mapsto> sy) ++ to_dict sg
                  | Inl e \<Rightarrow>
                      Map.empty(''symbol'' \<mapsto> sy, ''signal'' \<mapsto> PStr ''ERROR'',
                        ''error'' \<mapsto> PStr (str_error e))))"

fun batch_loop ::
  "SignalGenerator \<Rightarrow> ScanResult list \<Rightarrow> (string \<rightharpoonup> pyval) list \<Rightarrow> (string \<rightharpoonup> pyval) list" where
  "batch_loop g [] signals = signals"
| "batch_loop g (res # scan_results) signals =
     batch_loop g scan_results (signals @ [batch_record g res])"

definition generate_signals_batch ::
  "SignalGenerator \<Rightarrow> ScanResult list \<Rightarrow> (string \<rightharpoonup> pyval) list" where
  "generate_signals_batch g scan_results = batch_loop g scan_results []"

text \<open>
  Following the specification's words, for comparison with \<open>calculate_strength\<close>: each of
  the first two components is the distance of the value from its threshold, scaled
  linearly and saturating at a fixed distance (the code's constants: distance 50, factor
  2); the third is the size of the MACD histogram times the normalisation constant 50,
  saturating at 100.
\<close>

definition spec_strength ::
  "SignalGenerator \<Rightarrow> SignalType \<Rightarrow> real \<Rightarrow> real \<Rightarrow> real \<Rightarrow> real \<Rightarrow> real" where
  "spec_strength g signal_type r s m ms =
     (if signal_type = NEUTRAL then 0
      else (min (abs (r - rsi_threshold g)) 50 * 2 + min (abs (s - stoch_threshold g)) 50 * 2
            + min (abs (m - ms) * 50) 100) / 3)"

section \<open>Dates and times (the datetime and time modules)\<close>

text \<open>
  Times are integers: microseconds of the local wall clock, counted from 1970-01-01. A
  \<open>datetime\<close> lies between the first microsecond of year 1 and the last of year 9999;
  a \<open>date\<close> is a day number in the same range. The functions below follow CPython:
  where the library raises, they return the exception.
\<close>

definition datetime_min :: int where
  "datetime_min = - 719162 * 86400000000"

definition datetime_max :: int where
  "datetime_max = 2932897 * 86400000000 - 1"

function show_nat :: "nat \<Rightarrow> string" where
  "show_nat n =
     (if n < 10 then [''0123456789'' ! n]
      else show_nat (n div 10) @ [''0123456789'' ! (n mod 10)])"
  by pat_completeness auto
termination
  by (relation "measure id") auto

declare show_nat.simps [simp del]

definition show_int :: "int \<Rightarrow> string" where
  "show_int i = (if i < 0 then ''-'' @ show_nat (nat (- i)) else show_nat (nat i))"

text \<open>
  The constructor \<open>timedelta(...)\<close> for integer arguments that add up to \<open>us\<close>
  microseconds. The number of whole days must fit a C \<open>int\<close> and then have at most nine
  digits.
\<close>

definition timedelta :: "int \<Rightarrow> error + int" where
  "timedelta us =
     (let days = us div 86400000000
      in if days < - (2 ^ 31) \<or> 2 ^ 31 \<le> days
         then Inl (OverflowError ''Python int too large to convert to C int'')
         else if abs days > 999999999
         then Inl (OverflowError (''days='' @ show_int days @ ''; must have magnitude <= 999999999''))
         else Inr us)"

text \<open>\<open>timedelta(minutes=ttl)\<close>, in microseconds.\<close>

definition timedelta_minutes :: "int \<Rightarrow> error + int" where
  "timedelta_minutes ttl = timedelta (ttl * 60000000)"

text \<open>\<open>timedelta(days=n)\<close>, in days.\<close>

definition timedelta_days :: "int \<Rightarrow> error + int" where
  "timedelta_days days =
     (case timedelta (days * 86400000000) of Inl e \<Rightarrow> Inl e | Inr us \<Rightarrow> Inr days)"

text \<open>
  \<open>datetime.fromtimestamp(st_mtime)\<close>. A time stamp outside the years 1 to 9999 raises:
  ValueError with a message that names the year, or OverflowError or OSError for stamps
  that the platform cannot convert. Only the fact that it raises is modelled; the one
  message given here stands for all of them.
\<close>

definition fromtimestamp :: "int \<Rightarrow> error + int" where
  "fromtimestamp t =
     (if datetime_min \<le> t \<and> t \<le> datetime_max then Inr t
      else Inl (ValueError ''year is out of range''))"

text \<open>\<open>datetime + timedelta\<close>\<close>

definition datetime_add :: "int \<Rightarrow> int \<Rightarrow> error + int" where
  "datetime_add t delta =
     (if datetime_min \<le> t + delta \<and> t + delta \<le> datetime_max then Inr (t + delta)
      else Inl (OverflowError ''date value out of range''))"

text \<open>\<open>date - timedelta\<close>, on day numbers.\<close>

definition date_sub :: "int \<Rightarrow> int \<Rightarrow> error + int" where
  "date_sub d days =
     (if - 719162 \<le> d - days \<and> d - days \<le> 2932896 then Inr (d - days)
      else Inl (OverflowError ''date value out of range''))"

section \<open>Cache store (src/data/cache.py)\<close>

text \<open>
  The file system and the clock are an explicit state. A file holds bytes and the time of
  its last write, which the owner of the file can set to any value. \<open>clock\<close> is the
  reading of \<open>datetime.now()\<close>, the local time of the machine; \<open>date.today()\<close> is its
  day. \<open>unwritable\<close> is the set of paths where a write fails (permissions, missing
  directory). \<open>source_calls\<close> counts the calls of the fetcher made by \<open>get_or_fetch\<close>.
\<close>

record cache_file =
  content :: string
  st_mtime :: int

record world =
  files :: "string \<rightharpoonup> cache_file"
  clock :: int
  unwritable :: "string set"
  source_calls :: nat

text \<open>
  The cache manager. \<open>to_bytes\<close> and \<open>from_bytes\<close> are the Parquet library (pyarrow,
  outside this development), parameters: the bytes that \<open>to_parquet\<close> writes for a
  frame, or the exception it raises for a frame it cannot store, and the frame that
  \<open>read_parquet\<close> decodes from bytes, or the exception it raises.
\<close>

record CacheManager =
  cache_dir :: string
  ttl_minutes :: "string \<rightharpoonup> int"
  enabled :: bool
  to_bytes :: "frame \<Rightarrow> error + string"
  from_bytes :: "string \<Rightarrow> error + frame"

text \<open>\<open>str.upper\<close> on ASCII text (ticker symbols), \<open>str.replace\<close> of one character.\<close>

definition upper_char :: "char \<Rightarrow> char" where
  "upper_char c =
     (case map_of (zip ''abcdefghijklmnopqrstuvwxyz'' ''ABCDEFGHIJKLMNOPQRSTUVWXYZ'') c of
        Some u \<Rightarrow> u
      | None \<Rightarrow> c)"

definition upper :: "string \<Rightarrow> string" where
  "upper ticker = map upper_char ticker"

definition replace :: "char \<Rightarrow> char \<Rightarrow> string \<Rightarrow> string" where
  "replace old new ticker = map (\<lambda>c. if c = old then new else c) ticker"

definition safe_symbol :: "string \<Rightarrow> string" where
  "safe_symbol ticker = replace CHR ''.'' CHR ''_'' (replace CHR ''/'' CHR ''_'' (upper ticker))"

definition filename :: "string \<Rightarrow> string \<Rightarrow> string" where
  "filename ticker interval = safe_symbol ticker @ ''_'' @ interval @ ''.parquet''"

definition get_cache_path :: "CacheManager \<Rightarrow> string \<Rightarrow> string \<Rightarrow> string" where
  "get_cache_path c ticker interval = cache_dir c @ ''/'' @ filename ticker interval"

definition get_ttl :: "CacheManager \<Rightarrow> string \<Rightarrow> int" where
  "get_ttl c interval = (case ttl_minutes c interval of Some t \<Rightarrow> t | None \<Rightarrow> 60)"

text \<open>
  \<open>is_fresh\<close>. The expiry time is computed with \<open>datetime\<close> arithmetic, which raises
  OverflowError out of range; nothing in \<open>is_fresh\<close> catches it.
\<close>

definition is_fresh :: "CacheManager \<Rightarrow> world \<Rightarrow> string \<Rightarrow> string \<Rightarrow> error + bool" where
  "is_fresh c w ticker interval =
     (if \<not> enabled c then Inr False
      else case files w (get_cache_path c ticker interval) of
             None \<Rightarrow> Inr False
           | Some f \<Rightarrow>
              (case fromtimestamp (st_mtime f) of
                 Inl e \<Rightarrow> Inl e
               | Inr mtime \<Rightarrow>
                  (let ttl = get_ttl c interval
                   in case timedelta_minutes ttl of
                        Inl e \<Rightarrow> Inl e
                      | Inr delta \<Rightarrow>
                         (case datetime_add mtime delta of
                            Inl e \<Rightarrow> Inl e
                          | Inr expiry \<Rightarrow>
                             (let is_valid = clock w < expiry in Inr is_valid)))))"

definition read_parquet :: "CacheManager \<Rightarrow> world \<Rightarrow> string \<Rightarrow> error + frame" where
  "read_parquet c w path =
     (case files w path of
        None \<Rightarrow> Inl (Exception ''No such file'')
      | Some f \<Rightarrow> from_bytes c (content f))"

text \<open>
  \<open>get\<close>. The call of \<open>is_fresh\<close> stands before the \<open>try\<close>, so its exception leaves
  \<open>get\<close>; an exception of the read is caught and gives \<open>None\<close>.
\<close>

definition CacheManager_get ::
  "CacheManager \<Rightarrow> world \<Rightarrow> string \<Rightarrow> string \<Rightarrow> error + frame option" where
  "CacheManager_get c w ticker interval =
     (if \<not> enabled c then Inr None
      else case is_fresh c w ticker interval of
             Inl e \<Rightarrow> Inl e
           | Inr fresh \<Rightarrow>
              if \<not> fresh then Inr None
              else (case read_parquet c w (get_cache_path c ticker interval) of
                      Inr df \<Rightarrow> Inr (Some df)
                    | Inl e \<Rightarrow> Inr None))"

text \<open>
  \<open>data.to_parquet(path)\<close>: the frame is encoded, the file is replaced and stamped with
  the current time. It raises when the frame cannot be encoded or the file cannot be
  written; the file system is then taken as unchanged.
\<close>

definition to_parquet :: "CacheManager \<Rightarrow> world \<Rightarrow> string \<Rightarrow> frame \<Rightarrow> error + world" where
  "to_parquet c w path df =
     (case to_bytes c df of
        Inl e \<Rightarrow> Inl e
      | Inr bytes \<Rightarrow>
         if path \<in> unwritable w then Inl (Exception ''Permission denied'')
         else Inr (w\<lparr>files := (files w)(path \<mapsto> \<lparr>content = bytes, st_mtime = clock w\<rparr>)\<rparr>))"

definition CacheManager_set ::
  "CacheManager \<Rightarrow> world \<Rightarrow> string \<Rightarrow> string \<Rightarrow> frame \<Rightarrow> bool \<times> world" where
  "CacheManager_set c w ticker interval df =
     (if \<not> enabled c then (False, w)
      else case to_parquet c w (get_cache_path c ticker interval) df of
             Inr w' \<Rightarrow> (True, w')
           | Inl e \<Rightarrow> (False, w))"

text \<open>
  \<open>get_or_fetch\<close> with the cache manager given (the scanner always passes its own). The
  fetcher is a callable that reads and changes the world and returns a frame or raises.
  An exception of \<open>get\<close> or of the fetcher leaves \<open>get_or_fetch\<close>.
\<close>

definition get_or_fetch ::
  "string \<Rightarrow> string \<Rightarrow> (world \<Rightarrow> (error + frame) \<times> world) \<Rightarrow> CacheManager \<Rightarrow> world
    \<Rightarrow> (error + frame) \<times> world" where
  "get_or_fetch ticker interval fetcher c w =
     (case CacheManager_get c w ticker interval of
        Inl e \<Rightarrow> (Inl e, w)
      | Inr (Some cached) \<Rightarrow> (Inr cached, w)
      | Inr None \<Rightarrow>
         (case fetcher (w\<lparr>source_calls := Suc (source_calls w)\<rparr>) of
            (Inl e, w1) \<Rightarrow> (Inl e, w1)
          | (Inr df, w1) \<Rightarrow> (Inr df, snd (CacheManager_set c w1 ticker interval df))))"

section \<open>Concurrent scanner (src/scanner/scanner.py)\<close>

text \<open>
  \<open>fetch_ohlcv\<close> is the data provider (the network): a parameter that takes the symbol,
  the start and end dates and the interval.
\<close>

record Scanner =
  fetch_ohlcv :: "string \<Rightarrow> int \<Rightarrow> int \<Rightarrow> string \<Rightarrow> world \<Rightarrow> (error + frame) \<times> world"
  cache :: CacheManager
  max_concurrent :: int
  batch_delay_ms :: int
  lookback_days :: int

text \<open>\<open>date.today()\<close>, as a day number.\<close>

definition today :: "world \<Rightarrow> int" where
  "today w = clock w div 86400000000"

text \<open>
  \<open>fetch_symbol\<close>, the unit of work. The date arithmetic stands before the \<open>try\<close>, so
  its exception leaves the function; every exception of \<open>get_or_fetch\<close> is caught and
  stored in the result.
\<close>

definition fetch_symbol ::
  "Scanner \<Rightarrow> string \<Rightarrow> string \<Rightarrow> world \<Rightarrow> (error + ScanResult) \<times> world" where
  "fetch_symbol sc ticker interval w =
     (let end_date = today w
      in case timedelta_days (lookback_days sc) of
           Inl e \<Rightarrow> (Inl e, w)
         | Inr delta \<Rightarrow>
            (case date_sub end_date delta of
               Inl e \<Rightarrow> (Inl e, w)
             | Inr start_date \<Rightarrow>
                (case get_or_fetch ticker interval
                        (fetch_ohlcv sc ticker start_date end_date interval) (cache sc) w of
                   (Inr df, w') \<Rightarrow>
                     (Inr \<lparr>symbol = Some ticker, data = Some df, error = Some None\<rparr>, w')
                 | (Inl e, w') \<Rightarrow>
                     (Inr \<lparr>symbol = Some ticker, data = None,
                           error = Some (Some (str_error e))\<rparr>, w'))))"

text \<open>
  \<open>time.sleep(batch_delay_ms / 1000)\<close>. The division gives a float and raises when the
  quotient is too large for one; \<open>time.sleep\<close> turns the seconds into a signed 64-bit
  count of nanoseconds and raises when they do not fit.
\<close>

definition sleep_ms :: "int \<Rightarrow> world \<Rightarrow> error + world" where
  "sleep_ms ms w =
     (if 1000 * (2 ^ 1024 - 2 ^ 970) \<le> ms
      then Inl (OverflowError ''integer division result too large for a float'')
      else if 2 ^ 63 \<le> ms * 1000000
      then Inl (OverflowError ''timestamp out of range for platform time_t'')
      else Inr (w\<lparr>clock := clock w + ms * 1000\<rparr>))"

text \<open>\<open>if self.batch_delay_ms > 0: time.sleep(self.batch_delay_ms / 1000)\<close>\<close>

definition pause :: "Scanner \<Rightarrow> world \<Rightarrow> error + world" where
  "pause sc w = (if batch_delay_ms sc > 0 then sleep_ms (batch_delay_ms sc) w else Inr w)"

text \<open>
  The \<open>try\<close> around \<open>future.result()\<close>: the result of \<open>fetch_symbol\<close>, or for an
  exception that left it the result that the loop builds for the symbol.
\<close>

definition future_result :: "string \<Rightarrow> error + ScanResult \<Rightarrow> ScanResult" where
  "future_result ticker outcome =
     (case outcome of
        Inr result \<Rightarrow> result
      | Inl e \<Rightarrow> \<lparr>symbol = Some ticker, data = None, error = Some (Some (str_error e))\<rparr>)"

text \<open>
  Leaving the \<open>with\<close> block of the thread pool waits for the units of work that are
  still pending: they run, and their results are dropped.
\<close>

fun drain :: "Scanner \<Rightarrow> string \<Rightarrow> string list \<Rightarrow> world \<Rightarrow> world" where
  "drain sc interval [] w = w"
| "drain sc interval (ticker # futures) w =
     drain sc interval futures (snd (fetch_symbol sc ticker interval w))"

text \<open>
  The loop over \<open>as_completed(futures)\<close>. Each unit of work is taken as one atomic step
  on the world, run in the order in which the futures complete. The pause stands after
  the \<open>try\<close>: its exception leaves the loop and \<open>scan_symbols\<close>. The progress bar and
  the log lines do not touch the results and are left out.
\<close>

fun collect ::
  "Scanner \<Rightarrow> string \<Rightarrow> string list \<Rightarrow> ScanResult list \<Rightarrow> world
    \<Rightarrow> (error + ScanResult list) \<times> world" where
  "collect sc interval [] results w = (Inr results, w)"
| "collect sc interval (ticker # futures) results w =
     (let (outcome, w1) = fetch_symbol sc ticker interval w;
          results' = results @ [future_result ticker outcome]
      in case pause sc w1 of
           Inl e \<Rightarrow> (Inl e, drain sc interval futures w1)
         | Inr w2 \<Rightarrow> collect sc interval futures results' w2)"

text \<open>
  \<open>scan_symbols\<close>. The constructor of the thread pool raises ValueError for a pool size
  that is not positive. \<open>as_completed\<close> is the order in which the pool completes the
  futures submitted for the symbols: a parameter, chosen by the scheduler.
\<close>

definition scan_symbols ::
  "Scanner \<Rightarrow> (string list \<Rightarrow> string list) \<Rightarrow> string list \<Rightarrow> string \<Rightarrow> world
    \<Rightarrow> (error + ScanResult list) \<times> world" where
  "scan_symbols sc as_completed symbols interval w =
     (if max_concurrent sc \<le> 0 then (Inl (ValueError ''max_workers must be greater than 0''), w)
      else collect sc interval (as_completed symbols) [] w)"

text \<open>Values used in the examples below.\<close>

definition example_generator :: "real \<Rightarrow> real \<Rightarrow> SignalGenerator" where
  "example_generator rt st =
     \<lparr>rsi_threshold = rt, stoch_threshold = st, add_all_indicators = Inr,
      fmt_1f = (\<lambda>x. ''#''), fmt_str = (\<lambda>x. ''#'')\<rparr>"

definition example_frame :: "cell \<Rightarrow> cell \<Rightarrow> cell \<Rightarrow> cell \<Rightarrow> frame" where
  "example_frame r s m ms =
     \<lparr>columns = [''close'', ''rsi'', ''stoch_d'', ''macd'', ''macd_signal''],
      rows = [Map.empty(''close'' \<mapsto> Val 100, ''rsi'' \<mapsto> NaN, ''stoch_d'' \<mapsto> NaN,
                ''macd'' \<mapsto> NaN, ''macd_signal'' \<mapsto> NaN),
              Map.empty(''close'' \<mapsto> Val 101, ''rsi'' \<mapsto> r, ''stoch_d'' \<mapsto> s,
                ''macd'' \<mapsto> m, ''macd_signal'' \<mapsto> ms)]\<rparr>"

text \<open>
  A stand-in for the Parquet library that stores one frame: it refuses a frame with a
  column name used twice, as the library does.
\<close>

definition example_to_bytes :: "frame \<Rightarrow> error + string" where
  "example_to_bytes df =
     (if distinct (columns df) then Inr ''PAR1''
      else Inl (ValueError ''Duplicate column names found''))"

definition example_from_bytes :: "string \<Rightarrow> error + frame" where
  "example_from_bytes bytes =
     (if bytes = ''PAR1'' then Inr (example_frame (Val 55) (Val 62) (Val 1) (Val 0))
      else Inl (Exception ''Parquet magic bytes not found''))"

definition example_cache :: "bool \<Rightarrow> CacheManager" where
  "example_cache en =
     \<lparr>cache_dir = ''cache'',
      ttl_minutes = Map.empty(''1d'' \<mapsto> 240, ''1h'' \<mapsto> 30, ''5m'' \<mapsto> 5),
      enabled = en, to_bytes = example_to_bytes, from_bytes = example_from_bytes\<rparr>"

definition example_world :: "(string \<rightharpoonup> cache_file) \<Rightarrow> int \<Rightarrow> string set \<Rightarrow> world" where
  "example_world fs t ro = \<lparr>files = fs, clock = t, unwritable = ro, source_calls = 0\<rparr>"

definition example_fetcher :: "frame \<Rightarrow> world \<Rightarrow> (error + frame) \<times> world" where
  "example_fetcher df w = (Inr df, w)"

text \<open>A provider that knows every symbol but \<open>BAD\<close>.\<close>

definition example_provider ::
  "string \<Rightarrow> int \<Rightarrow> int \<Rightarrow> string \<Rightarrow> world \<Rightarrow> (error + frame) \<times> world" where
  "example_provider ticker start_date end_date interval w =
     (if ticker = ''BAD'' then (Inl (ValueError ''No data returned for BAD''), w)
      else (Inr (example_frame (Val 55) (Val 62) (Val 1) (Val 0)), w))"

definition example_scanner :: "int \<Rightarrow> Scanner" where
  "example_scanner n =
     \<lparr>fetch_ohlcv = example_provider, cache = example_cache True, max_concurrent = n,
      batch_delay_ms = 100, lookback_days = 60\<rparr>"

section \<open>Signal unanimity\<close>

text \<open>
  With all four indicator values present in the latest bar, the signal is the outcome of
  \<open>evaluate_conditions\<close> with the strength of \<open>calculate_strength\<close>.
\<close>

lemma generate_signal_present:
  assumes "\<not> empty df"
    and "(if b \<or> ''rsi'' \<notin> set (columns df) then add_all_indicators g df else Inr df) = Inr df'"
    and "rows df' \<noteq> []"
    and "last (rows df') ''rsi'' = Some (Val r)"
    and "last (rows df') ''stoch_d'' = Some (Val s)"
    and "last (rows df') ''macd'' = Some (Val m)"
    and "last (rows df') ''macd_signal'' = Some (Val ms)"
  shows "generate_signal g df b =
           Inr \<lparr>type = fst (evaluate_conditions g r s m ms),
                strength = calculate_strength (fst (evaluate_conditions g r s m ms)) r s m ms,
                rsi = Some r, stoch = Some s, macd = Some m, macd_signal = Some ms,
                reason = join '' | '' (snd (evaluate_conditions g r s m ms))\<rparr>"
proof -
  have il: "iloc_last df' = Inr (last (rows df'))"
    using assms(3) by (simp add: iloc_last_def)
  show ?thesis
    unfolding generate_signal_def
    using assms(1,2) il assms(4-7)
    by (simp add: Let_def split: prod.splits)
qed

text \<open>
  C1. For a snapshot with all four values present, \<open>evaluate_conditions\<close> returns BUY
  exactly when the RSI is above its threshold, the stochastic is above its threshold and
  the MACD is above its signal line, all at once; it returns SELL exactly when all three
  comparisons hold strictly the other way; it returns NEUTRAL in every other case. So a
  BUY or SELL snapshot in which one of the three comparisons is turned to the opposite
  side evaluates to NEUTRAL.
\<close>

theorem evaluate_conditions_unanimity:
  fixes g :: SignalGenerator and r s m ms :: real
  defines "t \<equiv> fst (evaluate_conditions g r s m ms)"
  defines "up \<equiv> r > rsi_threshold g \<and> s > stoch_threshold g \<and> m > ms"
  defines "down \<equiv> r < rsi_threshold g \<and> s < stoch_threshold g \<and> m < ms"
  shows "(t = BUY \<longleftrightarrow> up) \<and> (t = SELL \<longleftrightarrow> down) \<and> (t = NEUTRAL \<longleftrightarrow> \<not> up \<and> \<not> down)
    \<and> (up \<longrightarrow> (\<forall>x. x < rsi_threshold g \<longrightarrow> fst (evaluate_conditions g x s m ms) = NEUTRAL)
            \<and> (\<forall>x. x < stoch_threshold g \<longrightarrow> fst (evaluate_conditions g r x m ms) = NEUTRAL)
            \<and> (\<forall>x. x < ms \<longrightarrow> fst (evaluate_conditions g r s x ms) = NEUTRAL))
    \<and> (down \<longrightarrow> (\<forall>x. x > rsi_threshold g \<longrightarrow> fst (evaluate_conditions g x s m ms) = NEUTRAL)
            \<and> (\<forall>x. x > stoch_threshold g \<longrightarrow> fst (evaluate_conditions g r x m ms) = NEUTRAL)
            \<and> (\<forall>x. x > ms \<longrightarrow> fst (evaluate_conditions g r s x ms) = NEUTRAL))"
  unfolding t_def up_def down_def evaluate_conditions_def Let_def
  by auto

theorem evaluate_conditions_unanimity_witness:
  "fst (evaluate_conditions (example_generator 50 50) 55 62 (2/1000) (-1/1000)) = BUY
   \<and> fst (evaluate_conditions (example_generator 50 50) 55 40 (2/1000) (-1/1000)) = NEUTRAL"
proof -
  have up: "rsi_threshold (example_generator 50 50) < 55
      \<and> stoch_threshold (example_generator 50 50) < 62 \<and> (-1/1000 :: real) < 2/1000"
    by (simp add: example_generator_def)
  have lt: "(40::real) < stoch_threshold (example_generator 50 50)"
    by (simp add: example_generator_def)
  from evaluate_conditions_unanimity [of "example_generator 50 50" 55 62 "2/1000" "-1/1000"] up lt
  show ?thesis by blast
qed

section \<open>Strength score\<close>

lemma rsi_strength_bounds: "0 \<le> rsi_strength r \<and> rsi_strength r \<le> 100"
  by (simp add: rsi_strength_def min_def)

lemma stoch_strength_bounds: "0 \<le> stoch_strength s \<and> stoch_strength s \<le> 100"
  by (simp add: stoch_strength_def min_def)

lemma macd_strength_bounds: "0 \<le> macd_strength m ms \<and> macd_strength m ms \<le> 100"
  by (simp add: macd_strength_def Let_def min_def)

text \<open>The strength of every signal that \<open>generate_signal\<close> returns.\<close>

lemma generate_signal_strength_range:
  assumes "generate_signal g df b = Inr sg"
  shows "0 \<le> strength sg \<and> strength sg \<le> 100 \<and> (type sg = NEUTRAL \<longrightarrow> strength sg = 0)"
proof -
  have cs: "0 \<le> calculate_strength t r s m ms \<and> calculate_strength t r s m ms \<le> 100
      \<and> (t = NEUTRAL \<longrightarrow> calculate_strength t r s m ms = 0)" for t r s m ms
    using rsi_strength_bounds [of r] stoch_strength_bounds [of s] macd_strength_bounds [of m ms]
    by (auto simp: calculate_strength_def Let_def min_def)
  from assms show ?thesis
    unfolding generate_signal_def Let_def
    by (auto simp: cs split: if_splits sum.splits option.splits prod.splits)
qed

text \<open>
  What \<open>calculate_strength\<close> computes. The strength of a NEUTRAL signal is 0. For BUY and
  SELL it is the unweighted average of three component scores and lies between 0 and
  100: twice the distance of the RSI from the literal midpoint 50, saturating at distance
  50; the same for the stochastic; and 50 times the size of the MACD histogram,
  saturating at 100. It is the score of the specification when both thresholds are
  configured as 50, the default.
\<close>

theorem calculate_strength_average:
  "calculate_strength t r s m ms =
     (if t = NEUTRAL then 0
      else (2 * min (abs (r - 50)) 50 + 2 * min (abs (s - 50)) 50
            + min (50 * abs (m - ms)) 100) / 3)
   \<and> 0 \<le> calculate_strength t r s m ms \<and> calculate_strength t r s m ms \<le> 100
   \<and> (rsi_threshold g = 50 \<and> stoch_threshold g = 50 \<longrightarrow>
        calculate_strength t r s m ms = spec_strength g t r s m ms)"
proof -
  let ?avg = "(rsi_strength r + stoch_strength s + macd_strength m ms) / 3"
  have lo: "0 \<le> ?avg" and hi: "?avg \<le> 100"
    using rsi_strength_bounds [of r] stoch_strength_bounds [of s] macd_strength_bounds [of m ms]
    by auto
  have eq: "calculate_strength t r s m ms = (if t = NEUTRAL then 0 else ?avg)"
    using hi by (simp add: calculate_strength_def Let_def min_def)
  have form: "?avg = (2 * min (abs (r - 50)) 50 + 2 * min (abs (s - 50)) 50
            + min (50 * abs (m - ms)) 100) / 3"
    by (simp add: rsi_strength_def stoch_strength_def macd_strength_def Let_def mult.commute)
  show ?thesis
    using eq form lo hi
    by (auto simp: spec_strength_def rsi_strength_def stoch_strength_def macd_strength_def
        Let_def mult.commute)
qed

theorem calculate_strength_average_witness:
  "calculate_strength BUY 55 62 (2/1000) (-1/1000) = 683 / 60
   \<and> calculate_strength BUY 55 62 (2/1000) (-1/1000)
       = spec_strength (example_generator 50 50) BUY 55 62 (2/1000) (-1/1000)"
proof -
  have th: "rsi_threshold (example_generator 50 50) = 50 \<and> stoch_threshold (example_generator 50 50) = 50"
    by (simp add: example_generator_def)
  from calculate_strength_average [of BUY 55 62 "2/1000" "-1/1000" "example_generator 50 50"] th
  show ?thesis by simp
qed

text \<open>
  C7. The strength of a non-NEUTRAL signal is the average of three component scores, the
  first two being the distances of the RSI and of the stochastic from their thresholds,
  scaled and saturating. \<open>calculate_strength\<close> measures from the literal 50 instead, and
  departs from this for a threshold other than 50. With both thresholds at 60, the
  snapshots with RSI 50 and RSI 55 (same stochastic 40, MACD \<open>-1\<close> below signal 0) are
  both SELL; RSI 50 is farther from the threshold than RSI 55, yet its strength is the
  smaller one, and it is not the score computed from the distances to the thresholds
  (70/3 against 110/3).
\<close>

theorem calculate_strength_ignores_threshold:
  "fst (evaluate_conditions (example_generator 60 60) 50 40 (-1) 0) = SELL
   \<and> fst (evaluate_conditions (example_generator 60 60) 55 40 (-1) 0) = SELL
   \<and> abs (55 - rsi_threshold (example_generator 60 60)) < abs (50 - rsi_threshold (example_generator 60 60))
   \<and> calculate_strength SELL 50 40 (-1) 0 < calculate_strength SELL 55 40 (-1) 0
   \<and> calculate_strength SELL 50 40 (-1) 0 = 70 / 3
   \<and> spec_strength (example_generator 60 60) SELL 50 40 (-1) 0 = 110 / 3"
  by (simp add: evaluate_conditions_def example_generator_def calculate_strength_def
      spec_strength_def rsi_strength_def stoch_strength_def macd_strength_def Let_def)

section \<open>Serialisation of a signal\<close>

text \<open>
  C10. In the dictionary made by \<open>to_dict\<close>, each of \<open>rsi\<close>, \<open>stoch\<close>, \<open>macd\<close> and
  \<open>macd_signal\<close> is \<open>None\<close> when the value of the signal is absent, and also when it is
  exactly zero (the presence test is truthiness); every other value is reported rounded,
  to 2 decimals for \<open>rsi\<close> and \<open>stoch\<close>, to 6 for \<open>macd\<close> and \<open>macd_signal\<close>.
\<close>

theorem to_dict_zero_is_absent:
  "to_dict sg ''rsi'' =
     Some (case rsi sg of None \<Rightarrow> PNone
           | Some x \<Rightarrow> if x = 0 then PNone else PNum (py_round x 2))
   \<and> to_dict sg ''stoch'' =
     Some (case stoch sg of None \<Rightarrow> PNone
           | Some x \<Rightarrow> if x = 0 then PNone else PNum (py_round x 2))
   \<and> to_dict sg ''macd'' =
     Some (case macd sg of None \<Rightarrow> PNone
           | Some x \<Rightarrow> if x = 0 then PNone else PNum (py_round x 6))
   \<and> to_dict sg ''macd_signal'' =
     Some (case macd_signal sg of None \<Rightarrow> PNone
           | Some x \<Rightarrow> if x = 0 then PNone else PNum (py_round x 6))"
  by (simp add: to_dict_def round_if_def split: option.splits)

theorem to_dict_zero_is_absent_witness:
  "to_dict \<lparr>type = NEUTRAL, strength = 0, rsi = Some 0, stoch = Some (12469 / 200),
             macd = None, macd_signal = Some (1 / 4), reason = ''Mixed''\<rparr> ''rsi'' = Some PNone
   \<and> to_dict \<lparr>type = NEUTRAL, strength = 0, rsi = Some 0, stoch = Some (12469 / 200),
             macd = None, macd_signal = Some (1 / 4), reason = ''Mixed''\<rparr> ''stoch''
       = Some (PNum (3117 / 50))
   \<and> to_dict \<lparr>type = NEUTRAL, strength = 0, rsi = Some 0, stoch = Some (12469 / 200),
             macd = None, macd_signal = Some (1 / 4), reason = ''Mixed''\<rparr> ''macd'' = Some PNone
   \<and> to_dict \<lparr>type = NEUTRAL, strength = 0, rsi = Some 0, stoch = Some (12469 / 200),
             macd = None, macd_signal = Some (1 / 4), reason = ''Mixed''\<rparr> ''macd_signal''
       = Some (PNum (1 / 4))"
proof -
  have r2: "py_round (12469 / 200) 2 = 3117 / 50"
    by (simp add: py_round_def Let_def)
  have r6: "py_round (1 / 4) 6 = 1 / 4"
    by (simp add: py_round_def Let_def)
  from to_dict_zero_is_absent [of "\<lparr>type = NEUTRAL, strength = 0, rsi = Some 0,
      stoch = Some (12469 / 200), macd = None, macd_signal = Some (1 / 4), reason = ''Mixed''\<rparr>"]
  show ?thesis by (simp add: r2 r6)
qed

section \<open>Neutral on missing data\<close>

lemma isna_float_or_None: "isna v \<longleftrightarrow> float_or_None v = None"
  by (cases v rule: isna.cases) simp_all

text \<open>
  C6. When the series is not empty, the indicator step returns a frame with a latest bar,
  and at least one of \<open>rsi\<close>, \<open>stoch_d\<close>, \<open>macd\<close>, \<open>macd_signal\<close> of that bar is NaN or
  missing, \<open>generate_signal\<close> returns (it does not raise) a NEUTRAL signal of strength 0
  with the reason "Insufficient data for indicators", carrying the values that are
  present.
\<close>

theorem generate_signal_insufficient_data:
  assumes "\<not> empty df"
    and "(if b \<or> ''rsi'' \<notin> set (columns df) then add_all_indicators g df else Inr df) = Inr df'"
    and "rows df' \<noteq> []"
    and "isna (last (rows df') ''rsi'') \<or> isna (last (rows df') ''stoch_d'')
         \<or> isna (last (rows df') ''macd'') \<or> isna (last (rows df') ''macd_signal'')"
  shows "generate_signal g df b =
           Inr \<lparr>type = NEUTRAL, strength = 0,
                rsi = float_or_None (last (rows df') ''rsi''),
                stoch = float_or_None (last (rows df') ''stoch_d''),
                macd = float_or_None (last (rows df') ''macd''),
                macd_signal = float_or_None (last (rows df') ''macd_signal''),
                reason = ''Insufficient data for indicators''\<rparr>"
proof -
  from assms(4) have none: "float_or_None (last (rows df') ''rsi'') = None
      \<or> float_or_None (last (rows df') ''stoch_d'') = None
      \<or> float_or_None (last (rows df') ''macd'') = None
      \<or> float_or_None (last (rows df') ''macd_signal'') = None"
    by (simp add: isna_float_or_None)
  have "generate_signal g df b =
      (case iloc_last df' of Inl e \<Rightarrow> Inl e
       | Inr latest \<Rightarrow>
          (let r = latest ''rsi''; s = latest ''stoch_d''; m = latest ''macd'';
               ms = latest ''macd_signal''
           in case (float_or_None r, float_or_None s, float_or_None m, float_or_None ms) of
                (Some rv, Some sv, Some mv, Some msv) \<Rightarrow>
                  (let (signal_type, reasons) = evaluate_conditions g rv sv mv msv;
                       st = calculate_strength signal_type rv sv mv msv
                   in Inr \<lparr>type = signal_type, strength = st,
                           rsi = Some rv, stoch = Some sv,
                           macd = Some mv, macd_signal = Some msv,
                           reason = join '' | '' reasons\<rparr>)
              | _ \<Rightarrow>
                  Inr \<lparr>type = NEUTRAL, strength = 0,
                       rsi = float_or_None r, stoch = float_or_None s,
                       macd = float_or_None m, macd_signal = float_or_None ms,
                       reason = ''Insufficient data for indicators''\<rparr>))"
    unfolding generate_signal_def using assms(1,2) by simp
  also have "iloc_last df' = Inr (last (rows df'))"
    using assms(3) by (simp add: iloc_last_def)
  finally show ?thesis
    using none by (auto simp: Let_def split: option.splits)
qed

theorem generate_signal_insufficient_data_witness:
  "generate_signal (example_generator 50 50) (example_frame (Val 55) NaN (Val 1) NaN) True =
     Inr \<lparr>type = NEUTRAL, strength = 0, rsi = Some 55, stoch = None, macd = Some 1,
          macd_signal = None, reason = ''Insufficient data for indicators''\<rparr>"
proof -
  let ?df = "example_frame (Val 55) NaN (Val 1) NaN"
  let ?g = "example_generator 50 50"
  have 1: "\<not> empty ?df"
    by (simp add: empty_def example_frame_def)
  have 2: "(if True \<or> ''rsi'' \<notin> set (columns ?df) then add_all_indicators ?g ?df else Inr ?df)
      = Inr ?df"
    by (simp add: example_generator_def)
  have 3: "rows ?df \<noteq> []"
    by (simp add: example_frame_def)
  have 4: "isna (last (rows ?df) ''rsi'') \<or> isna (last (rows ?df) ''stoch_d'')
      \<or> isna (last (rows ?df) ''macd'') \<or> isna (last (rows ?df) ''macd_signal'')"
    by (simp add: example_frame_def)
  from generate_signal_insufficient_data [OF 1 2 3 4]
  show ?thesis by (simp add: example_frame_def)
qed

section \<open>Batch evaluation\<close>

lemma batch_loop_map: "batch_loop g rs acc = acc @ map (batch_record g) rs"
  by (induction rs arbitrary: acc) simp_all

lemma generate_signals_batch_map: "generate_signals_batch g rs = map (batch_record g) rs"
  by (simp add: generate_signals_batch_def batch_loop_map)

lemma to_dict_no_symbol: "to_dict sg ''symbol'' = None"
  by (simp add: to_dict_def)

lemma batch_record_symbol: "batch_record g res ''symbol'' = Some (symbol_or_default res)"
  by (simp add: batch_record_def Let_def map_add_def to_dict_no_symbol
      split: option.splits sum.splits)

lemma batch_record_error:
  "data res = None \<or> error_truthy res \<Longrightarrow>
   batch_record g res =
     Map.empty(''symbol'' \<mapsto> symbol_or_default res, ''signal'' \<mapsto> PStr ''ERROR'',
       ''error'' \<mapsto> error_or_default res)"
  by (auto simp: batch_record_def Let_def split: option.splits)

text \<open>
  C8. \<open>generate_signals_batch\<close> returns one record per scan result, in the order of the
  input, and the record at position \<open>i\<close> carries the symbol of the input at position
  \<open>i\<close>. An input without data, or with a non-empty error message, gives the record with
  exactly the keys \<open>symbol\<close>, \<open>signal\<close> and \<open>error\<close>, where \<open>signal\<close> is "ERROR" and
  \<open>error\<close> is the input's error: the message itself when the input has one.
\<close>

theorem generate_signals_batch_one_to_one:
  "length (generate_signals_batch g rs) = length rs
   \<and> (\<forall>i < length rs.
        (generate_signals_batch g rs ! i) ''symbol'' = Some (symbol_or_default (rs ! i)))
   \<and> (\<forall>i < length rs. data (rs ! i) = None \<or> error_truthy (rs ! i) \<longrightarrow>
        generate_signals_batch g rs ! i =
          Map.empty(''symbol'' \<mapsto> symbol_or_default (rs ! i), ''signal'' \<mapsto> PStr ''ERROR'',
            ''error'' \<mapsto> error_or_default (rs ! i)))
   \<and> (\<forall>i < length rs. \<forall>msg. error (rs ! i) = Some (Some msg) \<longrightarrow>
        error_or_default (rs ! i) = PStr msg \<and> (error_truthy (rs ! i) \<longleftrightarrow> msg \<noteq> []))"
  by (simp add: generate_signals_batch_map batch_record_symbol batch_record_error
      error_or_default_def error_truthy_def)

theorem generate_signals_batch_one_to_one_witness:
  "length (generate_signals_batch (example_generator 50 50)
      [\<lparr>symbol = Some ''AAPL'', data = None, error = Some (Some ''No data returned for AAPL'')\<rparr>,
       \<lparr>symbol = Some ''MSFT'', data = Some (example_frame (Val 55) (Val 62) (Val 1) (Val 0)),
        error = Some None\<rparr>]) = 2
   \<and> generate_signals_batch (example_generator 50 50)
      [\<lparr>symbol = Some ''AAPL'', data = None, error = Some (Some ''No data returned for AAPL'')\<rparr>,
       \<lparr>symbol = Some ''MSFT'', data = Some (example_frame (Val 55) (Val 62) (Val 1) (Val 0)),
        error = Some None\<rparr>] ! 0
     = Map.empty(''symbol'' \<mapsto> PStr ''AAPL'', ''signal'' \<mapsto> PStr ''ERROR'',
         ''error'' \<mapsto> PStr ''No data returned for AAPL'')"
proof -
  let ?rs = "[\<lparr>symbol = Some ''AAPL'', data = None, error = Some (Some ''No data returned for AAPL'')\<rparr>,
       \<lparr>symbol = Some ''MSFT'', data = Some (example_frame (Val 55) (Val 62) (Val 1) (Val 0)),
        error = Some None\<rparr>]"
  have i: "(0::nat) < length ?rs" by simp
  have d: "data (?rs ! 0) = None \<or> error_truthy (?rs ! 0)" by simp
  from generate_signals_batch_one_to_one [of "example_generator 50 50" ?rs] i d
  have "generate_signals_batch (example_generator 50 50) ?rs ! 0 =
          Map.empty(''symbol'' \<mapsto> symbol_or_default (?rs ! 0), ''signal'' \<mapsto> PStr ''ERROR'',
            ''error'' \<mapsto> error_or_default (?rs ! 0))"
    and "length (generate_signals_batch (example_generator 50 50) ?rs) = length ?rs"
    by blast+
  then show ?thesis
    by (simp add: symbol_or_default_def error_or_default_def)
qed

section \<open>Cache freshness\<close>

lemma timedelta_minutes_days: "(ttl * 60000000) div 86400000000 = ttl div (1440 :: int)"
proof -
  have "(ttl * 60000000) div (1440 * 60000000) = ttl div (1440 :: int)"
    by (rule div_mult_mult2) simp
  then show ?thesis by simp
qed

lemma timedelta_ok:
  "abs (us div 86400000000) \<le> 999999999 \<Longrightarrow> timedelta us = Inr us"
  unfolding timedelta_def Let_def by (simp split: if_splits) linarith

lemma timedelta_raises:
  "\<not> abs (us div 86400000000) \<le> 999999999 \<Longrightarrow> \<exists>e. timedelta us = Inl e"
  unfolding timedelta_def Let_def by simp

lemma timedelta_minutes_ok:
  "abs (ttl div 1440) \<le> 999999999 \<Longrightarrow> timedelta_minutes ttl = Inr (ttl * 60000000)"
  by (simp add: timedelta_minutes_def timedelta_ok timedelta_minutes_days)

lemma timedelta_minutes_raises:
  "\<not> abs (ttl div 1440) \<le> 999999999 \<Longrightarrow> \<exists>e. timedelta_minutes ttl = Inl e"
  using timedelta_raises [of "ttl * 60000000"]
  by (simp add: timedelta_minutes_def timedelta_minutes_days)

text \<open>
  C3, as amended. \<open>is_fresh\<close> returns False when caching is disabled and when the entry is
  absent. For an entry written at \<open>st_mtime\<close>, with the TTL \<open>T\<close> of the interval (in
  microseconds) and the elapsed time \<open>clock - st_mtime\<close>: when the write time and the expiry
  \<open>st_mtime + T\<close> are datetimes (the TTL within 999999999 days either way, the expiry
  within the years 1 to 9999), \<open>is_fresh\<close> returns True iff the elapsed time is less than
  \<open>T\<close>, so that at elapsed = \<open>T\<close> the entry is stale; otherwise \<open>is_fresh\<close> raises. The TTL
  is the value listed for the interval, and 60 minutes for an interval that is not listed.
\<close>

theorem is_fresh_iff_elapsed_lt_ttl:
  fixes c :: CacheManager and w :: world and ticker interval :: string
  defines "path \<equiv> get_cache_path c ticker interval"
  defines "T \<equiv> get_ttl c interval * 60000000"
  defines "representable \<equiv> \<lambda>f.
      datetime_min \<le> st_mtime f \<and> st_mtime f \<le> datetime_max
      \<and> abs (get_ttl c interval div 1440) \<le> 999999999
      \<and> datetime_min \<le> st_mtime f + T \<and> st_mtime f + T \<le> datetime_max"
  shows "(\<not> enabled c \<longrightarrow> is_fresh c w ticker interval = Inr False)
   \<and> (files w path = None \<longrightarrow> is_fresh c w ticker interval = Inr False)
   \<and> (\<forall>f. enabled c \<and> files w path = Some f \<and> representable f \<longrightarrow>
         is_fresh c w ticker interval = Inr (clock w - st_mtime f < T))
   \<and> (\<forall>f. enabled c \<and> files w path = Some f \<and> \<not> representable f \<longrightarrow>
         (\<exists>e. is_fresh c w ticker interval = Inl e))
   \<and> (ttl_minutes c interval = None \<longrightarrow> get_ttl c interval = 60)
   \<and> (\<forall>t. ttl_minutes c interval = Some t \<longrightarrow> get_ttl c interval = t)"
proof -
  have 1: "\<not> enabled c \<longrightarrow> is_fresh c w ticker interval = Inr False"
    by (simp add: is_fresh_def)
  have 2: "files w path = None \<longrightarrow> is_fresh c w ticker interval = Inr False"
    by (simp add: is_fresh_def path_def)
  have 3: "is_fresh c w ticker interval = Inr (clock w - st_mtime f < T)"
    if "enabled c" "files w path = Some f" "representable f" for f
  proof -
    from that(3) have td: "timedelta_minutes (get_ttl c interval) = Inr T"
      unfolding representable_def T_def by (simp add: timedelta_minutes_ok)
    from that(3) have ft: "fromtimestamp (st_mtime f) = Inr (st_mtime f)"
      unfolding representable_def by (simp add: fromtimestamp_def)
    from that(3) have da: "datetime_add (st_mtime f) T = Inr (st_mtime f + T)"
      unfolding representable_def by (simp add: datetime_add_def)
    have "clock w < st_mtime f + T \<longleftrightarrow> clock w - st_mtime f < T" by arith
    with that(1,2) td ft da show ?thesis
      unfolding path_def by (simp add: is_fresh_def Let_def)
  qed
  have 4: "\<exists>e. is_fresh c w ticker interval = Inl e"
    if "enabled c" "files w path = Some f" "\<not> representable f" for f
  proof (cases "datetime_min \<le> st_mtime f \<and> st_mtime f \<le> datetime_max")
    case False
    then have "\<exists>e. fromtimestamp (st_mtime f) = Inl e"
      by (auto simp: fromtimestamp_def)
    with that(1,2) show ?thesis
      unfolding path_def by (auto simp: is_fresh_def)
  next
    case rng: True
    then have ft: "fromtimestamp (st_mtime f) = Inr (st_mtime f)"
      by (simp add: fromtimestamp_def)
    show ?thesis
    proof (cases "abs (get_ttl c interval div 1440) \<le> 999999999")
      case False
      then obtain e where "timedelta_minutes (get_ttl c interval) = Inl e"
        using timedelta_minutes_raises by blast
      with that(1,2) ft show ?thesis
        unfolding path_def by (simp add: is_fresh_def Let_def)
    next
      case True
      then have td: "timedelta_minutes (get_ttl c interval) = Inr T"
        unfolding T_def by (simp add: timedelta_minutes_ok)
      from that(3) rng True have "\<not> (datetime_min \<le> st_mtime f + T \<and> st_mtime f + T \<le> datetime_max)"
        unfolding representable_def by blast
      then have "\<exists>e. datetime_add (st_mtime f) T = Inl e"
        by (auto simp: datetime_add_def)
      with that(1,2) ft td show ?thesis
        unfolding path_def by (auto simp: is_fresh_def Let_def)
    qed
  qed
  have 5: "ttl_minutes c interval = None \<longrightarrow> get_ttl c interval = 60"
    by (simp add: get_ttl_def)
  have 6: "\<forall>t. ttl_minutes c interval = Some t \<longrightarrow> get_ttl c interval = t"
    by (simp add: get_ttl_def)
  from 1 2 3 4 5 6 show ?thesis by blast
qed

lemma example_path: "get_cache_path (example_cache en) ''AAPL'' ''1d'' = ''cache/AAPL_1d.parquet''"
  by (simp add: get_cache_path_def example_cache_def filename_def safe_symbol_def
      replace_def upper_def upper_char_def)

text \<open>
  The daily TTL of 240 minutes is 14400000000 microseconds: an entry written at time 0 is
  fresh one microsecond before that and stale at it.
\<close>

theorem is_fresh_iff_elapsed_lt_ttl_witness:
  "is_fresh (example_cache True)
      (example_world (Map.empty(''cache/AAPL_1d.parquet'' \<mapsto>
          \<lparr>content = ''PAR1'', st_mtime = 0\<rparr>)) 14399999999 {}) ''AAPL'' ''1d'' = Inr True
   \<and> is_fresh (example_cache True)
      (example_world (Map.empty(''cache/AAPL_1d.parquet'' \<mapsto>
          \<lparr>content = ''PAR1'', st_mtime = 0\<rparr>)) 14400000000 {}) ''AAPL'' ''1d'' = Inr False
   \<and> is_fresh (example_cache False)
      (example_world (Map.empty(''cache/AAPL_1d.parquet'' \<mapsto>
          \<lparr>content = ''PAR1'', st_mtime = 0\<rparr>)) 0 {}) ''AAPL'' ''1d'' = Inr False
   \<and> is_fresh (example_cache True) (example_world Map.empty 0 {}) ''AAPL'' ''1d'' = Inr False
   \<and> get_ttl (example_cache True) ''15m'' = 60"
proof -
  let ?f = "\<lparr>content = ''PAR1'', st_mtime = 0\<rparr>"
  let ?fs = "Map.empty(''cache/AAPL_1d.parquet'' \<mapsto> ?f)"
  have en: "enabled (example_cache True)" "\<not> enabled (example_cache False)"
    by (simp_all add: example_cache_def)
  have t: "get_ttl (example_cache True) ''1d'' = 240"
    by (simp add: get_ttl_def example_cache_def)
  have rep: "datetime_min \<le> st_mtime ?f \<and> st_mtime ?f \<le> datetime_max
      \<and> abs (get_ttl (example_cache True) ''1d'' div 1440) \<le> 999999999
      \<and> datetime_min \<le> st_mtime ?f + get_ttl (example_cache True) ''1d'' * 60000000
      \<and> st_mtime ?f + get_ttl (example_cache True) ''1d'' * 60000000 \<le> datetime_max"
    by (simp add: t datetime_min_def datetime_max_def)
  have 1: "is_fresh (example_cache True) (example_world ?fs 14399999999 {}) ''AAPL'' ''1d'' = Inr True"
    using is_fresh_iff_elapsed_lt_ttl
      [of "example_cache True" "example_world ?fs 14399999999 {}" "''AAPL''" "''1d''"] rep
    by (simp add: example_path t en example_world_def)
  have 2: "is_fresh (example_cache True) (example_world ?fs 14400000000 {}) ''AAPL'' ''1d'' = Inr False"
    using is_fresh_iff_elapsed_lt_ttl
      [of "example_cache True" "example_world ?fs 14400000000 {}" "''AAPL''" "''1d''"] rep
    by (simp add: example_path t en example_world_def)
  have 3: "is_fresh (example_cache False) (example_world ?fs 0 {}) ''AAPL'' ''1d'' = Inr False"
    using is_fresh_iff_elapsed_lt_ttl
      [of "example_cache False" "example_world ?fs 0 {}" "''AAPL''" "''1d''"]
    by (simp add: en)
  have 4: "is_fresh (example_cache True) (example_world Map.empty 0 {}) ''AAPL'' ''1d'' = Inr False"
    using is_fresh_iff_elapsed_lt_ttl
      [of "example_cache True" "example_world Map.empty 0 {}" "''AAPL''" "''1d''"]
    by (simp add: example_world_def)
  have 5: "get_ttl (example_cache True) ''15m'' = 60"
    using is_fresh_iff_elapsed_lt_ttl
      [of "example_cache True" "example_world Map.empty 0 {}" "''AAPL''" "''15m''"]
    by (simp add: example_cache_def)
  from 1 2 3 4 5 show ?thesis by blast
qed

text \<open>
  C3 as stated fails for a TTL that takes the expiry out of the range of datetimes: with
  a TTL of 5000000000 minutes (beyond the year 9999) the elapsed time is less than the
  TTL, yet \<open>is_fresh\<close> does not return True: the addition raises OverflowError.
\<close>

theorem is_fresh_ttl_overflow_counterexample:
  "is_fresh ((example_cache True)\<lparr>ttl_minutes := Map.empty(''1d'' \<mapsto> 5000000000)\<rparr>)
      (example_world (Map.empty(''cache/AAPL_1d.parquet'' \<mapsto>
          \<lparr>content = ''PAR1'', st_mtime = 0\<rparr>)) 1000 {}) ''AAPL'' ''1d''
     = Inl (OverflowError ''date value out of range'')
   \<and> 1000 - st_mtime \<lparr>content = ''PAR1'', st_mtime = 0\<rparr>
       < get_ttl ((example_cache True)\<lparr>ttl_minutes := Map.empty(''1d'' \<mapsto> 5000000000)\<rparr>) ''1d''
           * 60000000"
  by (simp add: is_fresh_def get_ttl_def get_cache_path_def filename_def safe_symbol_def
      replace_def upper_def upper_char_def example_cache_def example_world_def
      fromtimestamp_def timedelta_minutes_def timedelta_def datetime_add_def
      datetime_min_def datetime_max_def Let_def)

section \<open>Cache-aware fetch\<close>

lemma is_fresh_disabled: "\<not> enabled c \<Longrightarrow> is_fresh c w ticker interval = Inr False"
  by (simp add: is_fresh_def)

lemma get_fresh_readable:
  assumes "is_fresh c w ticker interval = Inr True"
    and "read_parquet c w (get_cache_path c ticker interval) = Inr df"
  shows "CacheManager_get c w ticker interval = Inr (Some df)"
proof -
  from assms(1) have "enabled c"
    using is_fresh_disabled [of c w ticker interval] by auto
  with assms show ?thesis by (simp add: CacheManager_get_def)
qed

lemma get_fresh_unreadable:
  assumes "is_fresh c w ticker interval = Inr True"
    and "read_parquet c w (get_cache_path c ticker interval) = Inl e"
  shows "CacheManager_get c w ticker interval = Inr None"
proof -
  from assms(1) have "enabled c"
    using is_fresh_disabled [of c w ticker interval] by auto
  with assms show ?thesis by (simp add: CacheManager_get_def)
qed

lemma get_raises:
  assumes "is_fresh c w ticker interval = Inl e"
  shows "CacheManager_get c w ticker interval = Inl e"
proof -
  from assms have "enabled c"
    using is_fresh_disabled [of c w ticker interval] by auto
  with assms show ?thesis by (simp add: CacheManager_get_def)
qed

text \<open>
  C4, as amended. When \<open>is_fresh\<close> returns True for the entry and its file can be read,
  \<open>get_or_fetch\<close> returns the frame read from the cache and leaves the world as it is: the
  fetcher is not invoked, and the count of source calls is unchanged. When \<open>is_fresh\<close>
  returns True and the file cannot be read, \<open>get\<close> treats the entry as a miss:
  \<open>get_or_fetch\<close> invokes the fetcher (one more source call), and returns its frame after
  trying to store it, or lets its exception through. When \<open>is_fresh\<close> raises, the exception
  leaves \<open>get_or_fetch\<close> and the fetcher is not invoked.
\<close>

theorem get_or_fetch_fresh_readable_no_source_call:
  "(\<forall>df. is_fresh c w ticker interval = Inr True
          \<and> read_parquet c w (get_cache_path c ticker interval) = Inr df \<longrightarrow>
        get_or_fetch ticker interval fetcher c w = (Inr df, w)
        \<and> source_calls (snd (get_or_fetch ticker interval fetcher c w)) = source_calls w)
   \<and> (\<forall>e. is_fresh c w ticker interval = Inr True
          \<and> read_parquet c w (get_cache_path c ticker interval) = Inl e \<longrightarrow>
        get_or_fetch ticker interval fetcher c w =
          (case fetcher (w\<lparr>source_calls := Suc (source_calls w)\<rparr>) of
             (Inl e', w1) \<Rightarrow> (Inl e', w1)
           | (Inr df, w1) \<Rightarrow> (Inr df, snd (CacheManager_set c w1 ticker interval df))))
   \<and> (\<forall>e. is_fresh c w ticker interval = Inl e \<longrightarrow>
        get_or_fetch ticker interval fetcher c w = (Inl e, w))"
  by (simp add: get_or_fetch_def get_fresh_readable get_fresh_unreadable get_raises)

text \<open>A fresh, readable entry: the frame of the cache is returned, not the fetcher's.\<close>

theorem get_or_fetch_fresh_readable_no_source_call_witness:
  "get_or_fetch ''AAPL'' ''1d'' (example_fetcher (example_frame NaN NaN NaN NaN))
      (example_cache True)
      (example_world (Map.empty(''cache/AAPL_1d.parquet'' \<mapsto>
          \<lparr>content = ''PAR1'', st_mtime = 0\<rparr>)) 1000 {})
     = (Inr (example_frame (Val 55) (Val 62) (Val 1) (Val 0)),
        example_world (Map.empty(''cache/AAPL_1d.parquet'' \<mapsto>
          \<lparr>content = ''PAR1'', st_mtime = 0\<rparr>)) 1000 {})"
proof -
  let ?df = "example_frame (Val 55) (Val 62) (Val 1) (Val 0)"
  let ?w = "example_world (Map.empty(''cache/AAPL_1d.parquet'' \<mapsto>
          \<lparr>content = ''PAR1'', st_mtime = 0\<rparr>)) 1000 {}"
  have en: "enabled (example_cache True)"
    by (simp add: example_cache_def)
  have t: "get_ttl (example_cache True) ''1d'' = 240"
    by (simp add: get_ttl_def example_cache_def)
  have 1: "is_fresh (example_cache True) ?w ''AAPL'' ''1d'' = Inr True"
    by (simp add: is_fresh_def example_path t en example_world_def
        fromtimestamp_def timedelta_minutes_def timedelta_def datetime_add_def
        datetime_min_def datetime_max_def Let_def)
  have 2: "read_parquet (example_cache True) ?w (get_cache_path (example_cache True) ''AAPL'' ''1d'')
      = Inr ?df"
    by (simp add: example_path)
       (simp add: read_parquet_def example_world_def example_cache_def example_from_bytes_def)
  from get_or_fetch_fresh_readable_no_source_call
    [of "example_cache True" ?w "''AAPL''" "''1d''" "example_fetcher (example_frame NaN NaN NaN NaN)"]
    1 2
  show ?thesis by blast
qed

text \<open>
  C4 as stated fails for a fresh entry that cannot be read: \<open>is_fresh\<close> returns True, and
  the fetcher is invoked once.
\<close>

theorem fresh_unreadable_entry_counterexample:
  "is_fresh (example_cache True)
      (example_world (Map.empty(''cache/AAPL_1d.parquet'' \<mapsto>
          \<lparr>content = ''garbage'', st_mtime = 0\<rparr>)) 1000 {}) ''AAPL'' ''1d'' = Inr True
   \<and> source_calls (snd (get_or_fetch ''AAPL'' ''1d''
        (example_fetcher (example_frame (Val 55) (Val 62) (Val 1) (Val 0))) (example_cache True)
        (example_world (Map.empty(''cache/AAPL_1d.parquet'' \<mapsto>
          \<lparr>content = ''garbage'', st_mtime = 0\<rparr>)) 1000 {}))) = 1
   \<and> source_calls (example_world (Map.empty(''cache/AAPL_1d.parquet'' \<mapsto>
          \<lparr>content = ''garbage'', st_mtime = 0\<rparr>)) 1000 {}) = 0"
  by (simp add: get_or_fetch_def CacheManager_get_def CacheManager_set_def to_parquet_def
      read_parquet_def is_fresh_def get_ttl_def get_cache_path_def
      filename_def safe_symbol_def replace_def upper_def upper_char_def
      example_cache_def example_world_def example_fetcher_def example_from_bytes_def
      example_to_bytes_def example_frame_def
      fromtimestamp_def timedelta_minutes_def timedelta_def datetime_add_def
      datetime_min_def datetime_max_def Let_def)

section \<open>Cache round trip\<close>

text \<open>
  C5, as amended. When \<open>set\<close> returns True (caching is enabled and the write did not
  fail), the Parquet library reads back from the bytes it wrote for the frame the same
  frame, the time of the write and the expiry (write time plus TTL) are datetimes, and
  the time elapsed between the write and the \<open>get\<close> is less than the TTL, then \<open>get\<close>
  returns the frame that was stored.
\<close>

theorem set_then_get_roundtrip:
  assumes "CacheManager_set c w ticker interval df = (True, w1)"
    and "\<forall>bytes. to_bytes c df = Inr bytes \<longrightarrow> from_bytes c bytes = Inr df"
    and "datetime_min \<le> clock w" and "clock w \<le> datetime_max"
    and "abs (get_ttl c interval div 1440) \<le> 999999999"
    and "datetime_min \<le> clock w + get_ttl c interval * 60000000"
    and "clock w + get_ttl c interval * 60000000 \<le> datetime_max"
    and "now - clock w < get_ttl c interval * 60000000"
  shows "CacheManager_get c (w1\<lparr>clock := now\<rparr>) ticker interval = Inr (Some df)"
proof -
  let ?path = "get_cache_path c ticker interval"
  from assms(1) have en: "enabled c"
    by (auto simp: CacheManager_set_def split: if_splits)
  from assms(1) en obtain bytes where
    enc: "to_bytes c df = Inr bytes" and
    w1: "w1 = w\<lparr>files := (files w)(?path \<mapsto> \<lparr>content = bytes, st_mtime = clock w\<rparr>)\<rparr>"
    by (auto simp: CacheManager_set_def to_parquet_def split: if_splits sum.splits)
  from enc assms(2) have dec: "from_bytes c bytes = Inr df" by blast
  have ft: "fromtimestamp (clock w) = Inr (clock w)"
    using assms(3,4) by (simp add: fromtimestamp_def)
  have td: "timedelta_minutes (get_ttl c interval) = Inr (get_ttl c interval * 60000000)"
    using assms(5) by (rule timedelta_minutes_ok)
  have da: "datetime_add (clock w) (get_ttl c interval * 60000000)
      = Inr (clock w + get_ttl c interval * 60000000)"
    using assms(6,7) by (simp add: datetime_add_def)
  have lt: "now < clock w + get_ttl c interval * 60000000"
    using assms(8) by arith
  have fresh: "is_fresh c (w1\<lparr>clock := now\<rparr>) ticker interval = Inr True"
    using en ft td da lt by (simp add: is_fresh_def w1 Let_def)
  have rd: "read_parquet c (w1\<lparr>clock := now\<rparr>) ?path = Inr df"
    using dec by (simp add: read_parquet_def w1)
  from fresh rd show ?thesis by (rule get_fresh_readable)
qed

text \<open>A frame stored at time 0 and read one microsecond before the daily TTL ends.\<close>

theorem set_then_get_roundtrip_witness:
  "CacheManager_get (example_cache True)
      ((snd (CacheManager_set (example_cache True) (example_world Map.empty 0 {}) ''AAPL'' ''1d''
              (example_frame (Val 55) (Val 62) (Val 1) (Val 0))))\<lparr>clock := 14399999999\<rparr>)
      ''AAPL'' ''1d'' = Inr (Some (example_frame (Val 55) (Val 62) (Val 1) (Val 0)))"
proof -
  let ?c = "example_cache True"
  let ?df = "example_frame (Val 55) (Val 62) (Val 1) (Val 0)"
  let ?w = "example_world Map.empty 0 {}"
  let ?w1 = "snd (CacheManager_set ?c ?w ''AAPL'' ''1d'' ?df)"
  have t: "get_ttl ?c ''1d'' = 240"
    by (simp add: get_ttl_def example_cache_def)
  have ck: "clock ?w = 0"
    by (simp add: example_world_def)
  have 1: "CacheManager_set ?c ?w ''AAPL'' ''1d'' ?df = (True, ?w1)"
    by (simp add: CacheManager_set_def to_parquet_def example_cache_def example_world_def
        example_to_bytes_def example_frame_def)
  have 2: "\<forall>bytes. to_bytes ?c ?df = Inr bytes \<longrightarrow> from_bytes ?c bytes = Inr ?df"
    by (auto simp: example_cache_def example_to_bytes_def example_from_bytes_def split: if_splits)
  have 3: "datetime_min \<le> clock ?w" and 4: "clock ?w \<le> datetime_max"
    by (simp_all add: ck datetime_min_def datetime_max_def)
  have 5: "abs (get_ttl ?c ''1d'' div 1440) \<le> 999999999"
    by (simp add: t)
  have 6: "datetime_min \<le> clock ?w + get_ttl ?c ''1d'' * 60000000"
    and 7: "clock ?w + get_ttl ?c ''1d'' * 60000000 \<le> datetime_max"
    by (simp_all add: ck t datetime_min_def datetime_max_def)
  have 8: "14399999999 - clock ?w < get_ttl ?c ''1d'' * 60000000"
    by (simp add: ck t)
  from set_then_get_roundtrip [OF 1 2 3 4 5 6 7 8] show ?thesis .
qed

text \<open>
  C5 as stated fails when nothing is stored: with caching disabled, and with an enabled
  cache whose file cannot be written, \<open>set\<close> returns False and the \<open>get\<close> that follows
  returns None. It fails too for a TTL of 5000000000 minutes: \<open>set\<close> returns True, no time
  has passed, and \<open>get\<close> raises OverflowError.
\<close>

theorem set_then_get_counterexample:
  "CacheManager_get (example_cache False)
      (snd (CacheManager_set (example_cache False) (example_world Map.empty 0 {}) ''AAPL'' ''1d''
              (example_frame (Val 55) (Val 62) (Val 1) (Val 0))))
      ''AAPL'' ''1d'' = Inr None
   \<and> CacheManager_get (example_cache True)
      (snd (CacheManager_set (example_cache True)
              (example_world Map.empty 0 {''cache/AAPL_1d.parquet''}) ''AAPL'' ''1d''
              (example_frame (Val 55) (Val 62) (Val 1) (Val 0))))
      ''AAPL'' ''1d'' = Inr None
   \<and> fst (CacheManager_set
            ((example_cache True)\<lparr>ttl_minutes := Map.empty(''1d'' \<mapsto> 5000000000)\<rparr>)
            (example_world Map.empty 0 {}) ''AAPL'' ''1d''
            (example_frame (Val 55) (Val 62) (Val 1) (Val 0)))
   \<and> CacheManager_get
        ((example_cache True)\<lparr>ttl_minutes := Map.empty(''1d'' \<mapsto> 5000000000)\<rparr>)
        (snd (CacheManager_set
            ((example_cache True)\<lparr>ttl_minutes := Map.empty(''1d'' \<mapsto> 5000000000)\<rparr>)
            (example_world Map.empty 0 {}) ''AAPL'' ''1d''
            (example_frame (Val 55) (Val 62) (Val 1) (Val 0))))
        ''AAPL'' ''1d'' = Inl (OverflowError ''date value out of range'')"
  by (simp add: CacheManager_get_def CacheManager_set_def to_parquet_def
      read_parquet_def is_fresh_def get_ttl_def get_cache_path_def
      filename_def safe_symbol_def replace_def upper_def upper_char_def
      example_cache_def example_world_def example_to_bytes_def example_from_bytes_def
      example_frame_def fromtimestamp_def timedelta_minutes_def timedelta_def datetime_add_def
      datetime_min_def datetime_max_def Let_def)

section \<open>Cache file names\<close>

lemma split_at_first:
  assumes "p @ x # q = p' @ x # q'" and "x \<notin> set p" and "x \<notin> set p'"
  shows "p = p' \<and> q = q'"
proof -
  have "takeWhile (\<lambda>y. y \<noteq> x) (p @ x # q) = p"
    using assms(2) by (subst takeWhile_append2) auto
  moreover have "takeWhile (\<lambda>y. y \<noteq> x) (p' @ x # q') = p'"
    using assms(3) by (subst takeWhile_append2) auto
  ultimately have "p = p'" using assms(1) by simp
  with assms(1) show ?thesis by simp
qed

lemma split_at_last:
  assumes "a @ x # b = c @ x # d" and "x \<notin> set b" and "x \<notin> set d"
  shows "a = c \<and> b = d"
proof -
  from assms(1) have "rev (a @ x # b) = rev (c @ x # d)" by simp
  then have "rev b @ x # rev a = rev d @ x # rev c" by simp
  then have "rev b = rev d \<and> rev a = rev c"
    using assms(2,3) by (intro split_at_first) simp_all
  then show ?thesis by simp
qed

lemma filename_eq_iff:
  assumes "CHR ''_'' \<notin> set i1" and "CHR ''_'' \<notin> set i2"
  shows "filename t1 i1 = filename t2 i2 \<longleftrightarrow> safe_symbol t1 = safe_symbol t2 \<and> i1 = i2"
proof
  assume "filename t1 i1 = filename t2 i2"
  then have "safe_symbol t1 @ CHR ''_'' # i1 = safe_symbol t2 @ CHR ''_'' # i2"
    by (simp add: filename_def)
  then show "safe_symbol t1 = safe_symbol t2 \<and> i1 = i2"
    using assms by (rule split_at_last)
next
  assume "safe_symbol t1 = safe_symbol t2 \<and> i1 = i2"
  then show "filename t1 i1 = filename t2 i2" by (simp add: filename_def)
qed

text \<open>
  C9, as amended. The file name is a function of the symbol and the interval. For
  intervals that contain no underscore, two keys get the same file name exactly when the
  intervals are equal and the symbols are equal after sanitising (upper case, \<open>/\<close> and
  \<open>.\<close> replaced by \<open>_\<close>). So for symbols that sanitising leaves unchanged, distinct keys
  get distinct file names.
\<close>

theorem filename_injective_up_to_sanitising:
  assumes "CHR ''_'' \<notin> set i1" and "CHR ''_'' \<notin> set i2"
  shows "(filename t1 i1 = filename t2 i2 \<longleftrightarrow> safe_symbol t1 = safe_symbol t2 \<and> i1 = i2)
    \<and> (safe_symbol t1 = t1 \<and> safe_symbol t2 = t2 \<longrightarrow>
         (filename t1 i1 = filename t2 i2 \<longleftrightarrow> (t1, i1) = (t2, i2)))"
  using filename_eq_iff [OF assms, of t1 t2] by auto

theorem filename_injective_up_to_sanitising_witness:
  "filename ''AAPL'' ''1d'' \<noteq> filename ''MSFT'' ''1d''
   \<and> filename ''AAPL'' ''1d'' \<noteq> filename ''AAPL'' ''1h''"
proof -
  have u: "CHR ''_'' \<notin> set ''1d''" "CHR ''_'' \<notin> set ''1h''" by simp_all
  have s: "safe_symbol ''AAPL'' = ''AAPL''" "safe_symbol ''MSFT'' = ''MSFT''"
    by (simp_all add: safe_symbol_def replace_def upper_def upper_char_def)
  from filename_injective_up_to_sanitising [OF u(1) u(1), of "''AAPL''" "''MSFT''"]
    filename_injective_up_to_sanitising [OF u(1) u(2), of "''AAPL''" "''AAPL''"] s
  show ?thesis by simp
qed

text \<open>
  C9 as stated fails: distinct keys share a file name when the symbols differ only in
  \<open>.\<close> against \<open>/\<close>, or only in case, or when an underscore moves between symbol and
  interval.
\<close>

theorem filename_not_injective_counterexample:
  "filename ''BRK.B'' ''1d'' = filename ''BRK/B'' ''1d'' \<and> (''BRK.B'', ''1d'') \<noteq> (''BRK/B'', ''1d'')
   \<and> filename ''aapl'' ''1d'' = filename ''AAPL'' ''1d'' \<and> (''aapl'', ''1d'') \<noteq> (''AAPL'', ''1d'')
   \<and> filename ''A'' ''B_1d'' = filename ''A_B'' ''1d'' \<and> (''A'', ''B_1d'') \<noteq> (''A_B'', ''1d'')"
  by (simp add: filename_def safe_symbol_def replace_def upper_def upper_char_def)

section \<open>Fan-out completeness and isolation\<close>












text \<open>A scan of two symbols, the second completing first, the provider failing for it.\<close>

lemma scan_example_value:
  "fst (scan_symbols (example_scanner 10) rev [''AAPL'', ''BAD''] ''1d''
            (example_world Map.empty 0 {}))
   = Inr [\<lparr>symbol = Some ''BAD'', data = None, error = Some (Some ''No data returned for BAD'')\<rparr>,
          \<lparr>symbol = Some ''AAPL'', data = Some (example_frame (Val 55) (Val 62) (Val 1) (Val 0)),
           error = Some None\<rparr>]"
  by (simp add: scan_symbols_def fetch_symbol_def get_or_fetch_def CacheManager_get_def
      CacheManager_set_def to_parquet_def read_parquet_def is_fresh_def get_ttl_def
      get_cache_path_def filename_def safe_symbol_def replace_def future_result_def pause_def
      upper_def upper_char_def example_scanner_def example_provider_def example_cache_def
      example_world_def today_def timedelta_days_def timedelta_def date_sub_def sleep_ms_def
      example_to_bytes_def example_frame_def Let_def)

text \<open>
  A look-back that leaves the range of dates: the exception of the date arithmetic
  leaves \<open>fetch_symbol\<close> and becomes the result of the symbol in the loop.
\<close>

lemma show_int_example: "show_int 1000000000 = ''1000000000'' \<and> show_int (- 42) = ''-42''"
  by (simp add: show_int_def show_nat.simps)

lemma fetch_symbol_overflow:
  "fst (fetch_symbol ((example_scanner 10)\<lparr>lookback_days := 1000000000\<rparr>) ''AAPL'' ''1d''
         (example_world Map.empty 0 {}))
   = Inl (OverflowError ''days=1000000000; must have magnitude <= 999999999'')"
  using show_int_example
  by (simp add: fetch_symbol_def example_scanner_def timedelta_days_def timedelta_def Let_def)

lemma scan_overflow:
  "fst (scan_symbols ((example_scanner 10)\<lparr>lookback_days := 800000\<rparr>) rev [''AAPL''] ''1d''
         (example_world Map.empty 0 {}))
   = Inr [\<lparr>symbol = Some ''AAPL'', data = None, error = Some (Some ''date value out of range'')\<rparr>]"
  by (simp add: scan_symbols_def fetch_symbol_def example_scanner_def timedelta_days_def
      timedelta_def date_sub_def today_def example_world_def future_result_def pause_def
      sleep_ms_def Let_def)

end
